theory Spec2Isabelle
  imports Complex_Main
begin

section \<open>Data model (backend/src/types/index.ts and the Mongoose schemas)\<close>

datatype AssessmentLevel = A1 | A2 | B1 | B2 | C1 | C2

datatype TestStatus = NOT_STARTED | IN_PROGRESS | COMPLETED | FAILED | TIME_EXPIRED

text \<open>
  A document's \<open>_id\<close> is its position in its collection: a collection is a list of
  documents, a new document is appended, and \<open>save\<close> of a loaded document overwrites its
  position. A \<open>Date\<close> is its \<open>getTime()\<close>, milliseconds as a natural number.
\<close>

type_synonym objectId = nat

type_synonym date = nat

record user =
  currentLevel :: "AssessmentLevel option"
  canTakeTest :: bool
  lastTestAttempt :: "date option"

text \<open>
  A question document: the fields the test controller reads. \<open>q_step\<close> is the \<open>step\<close>
  field of the stored document, which the query \<open>Question.find({ step, isActive: true })\<close>
  filters on. The Question schema declares no such field, so a question saved through
  it (\<open>createQuestion\<close>, \<open>bulkCreateQuestions\<close>, \<open>updateQuestion\<close>) has none:
  \<open>q_step = None\<close>, and no step matches it. Only a document put into the collection by
  other means can carry one.
\<close>

record qoption =
  opt_text :: string
  opt_isCorrect :: bool

record question =
  q_step :: "nat option"
  isActive :: bool
  options :: "qoption list"

record answer =
  questionId :: objectId
  selectedOption :: int
  isCorrect :: bool
  timeSpent :: int

text \<open>
  \<open>startTime\<close> is required by the schema with default \<open>Date.now\<close>, so a stored session
  always has one; \<open>timeLimit\<close> is in minutes. \<open>percentage\<close> is a JavaScript number,
  modelled as a real. Of the schema's validators the one on \<open>step\<close> is modelled
  (\<open>step_enumValidator\<close> below), where \<open>startTest\<close> saves the new session; a session
  stored that way has step 1 and passes it again at every later save. The others
  (required, min, max) never refuse what the handlers write: the route validators keep
  \<open>selectedOption\<close> and \<open>timeSpent\<close> at or above 0, and validation runs before the
  \<open>pre('save')\<close> hook, on a score and a percentage in range.
\<close>

record testSession =
  userId :: objectId
  step :: nat
  questions :: "objectId list"
  answers :: "answer list"
  startTime :: date
  endTime :: "date option"
  timeLimit :: nat
  status :: TestStatus
  score :: nat
  percentage :: real
  levelAchieved :: "AssessmentLevel option"
  canProceedToNext :: bool

section \<open>User.canTakeTestStep (backend/src/models/User.ts)\<close>

definition canTakeTestStep :: "user \<Rightarrow> nat \<Rightarrow> bool" where
  "canTakeTestStep u stp =
     (if \<not> canTakeTest u then False
      else if stp = 1 then
        currentLevel u = None \<or> currentLevel u = Some A1 \<or> currentLevel u = Some A2
      else if stp = 2 then
        currentLevel u = Some A2 \<or> currentLevel u = Some B1 \<or> currentLevel u = Some B2
      else if stp = 3 then
        currentLevel u = Some B2 \<or> currentLevel u = Some C1 \<or> currentLevel u = Some C2
      else False)"

section \<open>TestSession methods and hooks (backend/src/models/TestSession.ts)\<close>

text \<open>
  \<open>determineLevelAndProgression\<close>: a \<open>switch\<close> on the step with no default branch, so a
  step other than 1, 2, 3 leaves the session as it is.
\<close>

definition determineLevelAndProgression :: "testSession \<Rightarrow> testSession" where
  "determineLevelAndProgression ts =
     (let p = percentage ts in
      if step ts = 1 then
        (if p < 25 then ts\<lparr>levelAchieved := None, canProceedToNext := False\<rparr>
         else if p < 50 then ts\<lparr>levelAchieved := Some A1, canProceedToNext := False\<rparr>
         else if p < 75 then ts\<lparr>levelAchieved := Some A2, canProceedToNext := False\<rparr>
         else ts\<lparr>levelAchieved := Some A2, canProceedToNext := True\<rparr>)
      else if step ts = 2 then
        (if p < 25 then ts\<lparr>levelAchieved := Some A2, canProceedToNext := False\<rparr>
         else if p < 50 then ts\<lparr>levelAchieved := Some B1, canProceedToNext := False\<rparr>
         else if p < 75 then ts\<lparr>levelAchieved := Some B2, canProceedToNext := False\<rparr>
         else ts\<lparr>levelAchieved := Some B2, canProceedToNext := True\<rparr>)
      else if step ts = 3 then
        (if p < 25 then ts\<lparr>levelAchieved := Some B2, canProceedToNext := False\<rparr>
         else if p < 50 then ts\<lparr>levelAchieved := Some C1, canProceedToNext := False\<rparr>
         else ts\<lparr>levelAchieved := Some C2, canProceedToNext := False\<rparr>)
      else ts)"

text \<open>
  \<open>Math.round\<close> rounds to the nearest integer, a half towards plus infinity. The hook
  applies it to \<open>(correctAnswers / totalQuestions) * 100\<close>, computed in floating point;
  a session has at most 20 questions (the limit of the query in \<open>startTest\<close>), and then
  the exact quotient times 100 ends in a half only for 8 or 16 questions, where the
  floating-point value is exact, and is otherwise at least 1/40 away from a half, so
  rounding the exact value gives what the code computes.
\<close>

definition Math_round :: "real \<Rightarrow> int" where
  "Math_round x = \<lfloor>x + 1 / 2\<rfloor>"

text \<open>
  The \<open>pre('save')\<close> hook: with at least one answer it recomputes score and percentage
  and calls \<open>determineLevelAndProgression\<close>; with no answer it changes nothing.
\<close>

definition pre_save :: "testSession \<Rightarrow> testSession" where
  "pre_save ts =
     (if answers ts \<noteq> [] then
        (let correctAnswers = length (filter isCorrect (answers ts));
             totalQuestions = length (questions ts)
         in determineLevelAndProgression
              (ts\<lparr>score := correctAnswers,
                  percentage :=
                    (if totalQuestions > 0
                     then of_int (Math_round ((of_nat correctAnswers / of_nat totalQuestions) * 100))
                     else 0)\<rparr>))
      else ts)"


text \<open>
  The validator of the path \<open>step\<close>, declared \<open>type: Number, enum: Object.values(TestStep)\<close>.
  \<open>TestStep\<close> is a numeric enum, so \<open>Object.values(TestStep)\<close> is
  \<open>['STEP_1', 'STEP_2', 'STEP_3', 1, 2, 3]\<close>. Mongoose applies an array given for a schema
  option as the argument list of the option's function, here \<open>enum(values, message)\<close> of
  the Number type: \<open>values\<close> is the string \<open>'STEP_1'\<close> (and \<open>message\<close> is \<open>'STEP_2'\<close>), and
  the validator is \<open>v == null || values.indexOf(v) !== -1\<close>. A step passes exactly when
  its decimal numeral occurs in \<open>'STEP_1'\<close>.
\<close>

fun decimal :: "nat \<Rightarrow> string" where
  "decimal n =
     (if n < 10 then [''0123456789'' ! n]
      else decimal (n div 10) @ [''0123456789'' ! (n mod 10)])"

fun indexOf_found :: "string \<Rightarrow> string \<Rightarrow> bool" where
  "indexOf_found [] w = (w = [])"
| "indexOf_found (c # cs) w = (take (length w) (c # cs) = w \<or> indexOf_found cs w)"

definition step_enumValidator :: "nat \<Rightarrow> bool" where
  "step_enumValidator v = indexOf_found ''STEP_1'' (decimal v)"

section \<open>Collections\<close>

text \<open>
  \<open>Model.findById\<close>: the document at that position, or nothing (\<open>null\<close>).
\<close>

definition findById :: "'a list \<Rightarrow> objectId \<Rightarrow> 'a option" where
  "findById docs i = (if i < length docs then Some (docs ! i) else None)"

text \<open>
  \<open>Model.find(filter)\<close>: the documents that satisfy the filter, each with its \<open>_id\<close>, in
  collection order; \<open>Model.findOne(filter)\<close>: the first of them, or nothing.
\<close>

definition findMany :: "(objectId \<Rightarrow> 'a \<Rightarrow> bool) \<Rightarrow> 'a list \<Rightarrow> (objectId \<times> 'a) list" where
  "findMany P docs = filter (\<lambda>(i, d). P i d) (enumerate 0 docs)"

definition findOne :: "(objectId \<Rightarrow> 'a \<Rightarrow> bool) \<Rightarrow> 'a list \<Rightarrow> (objectId \<times> 'a) option" where
  "findOne P docs = find (\<lambda>(i, d). P i d) (enumerate 0 docs)"

text \<open>
  \<open>Array.prototype.findIndex\<close>, with \<open>None\<close> for the result -1.
\<close>

fun findIndex :: "('a \<Rightarrow> bool) \<Rightarrow> 'a list \<Rightarrow> nat option" where
  "findIndex P [] = None"
| "findIndex P (x # xs) = (if P x then Some 0 else map_option Suc (findIndex P xs))"

text \<open>
  Reading \<open>xs[i]\<close> for a number \<open>i\<close>: \<open>undefined\<close> out of range.
\<close>

definition element_at :: "'a list \<Rightarrow> int \<Rightarrow> 'a option" where
  "element_at xs i = (if 0 \<le> i \<and> i < int (length xs) then Some (xs ! nat i) else None)"

section \<open>The test controller\<close>

record state =
  users :: "user list"
  questionDocs :: "question list"
  sessions :: "testSession list"

text \<open>
  A handler answers with an error or with its data. \<open>ValidationFailed\<close> is the 400
  response for a request the route's validators refuse, \<open>AppError message statusCode\<close>
  the response of a thrown \<open>AppError\<close>, and \<open>InternalServerError\<close> the 500 response of
  the handler's \<open>catch\<close> clause for any other exception.
\<close>

datatype error = ValidationFailed | AppError string nat | InternalServerError

record startedData =
  new_sessionId :: objectId
  new_questions :: "(objectId \<times> string list) list"
  new_timeLimit :: nat
  new_totalQuestions :: nat

datatype startResponse =
  AlreadyInProgress objectId testSession
| Started startedData

record answerData =
  ack_questionId :: objectId
  ack_isCorrect :: bool
  ack_totalAnswered :: nat
  ack_totalQuestions :: nat

record completeData =
  res_sessionId :: objectId
  res_score :: nat
  res_percentage :: real
  res_levelAchieved :: "AssessmentLevel option"
  res_canProceedToNext :: bool
  res_timeTaken :: int
  res_totalQuestions :: nat
  res_correctAnswers :: nat

text \<open>
  \<open>startTest\<close>, in the two parts that \<open>await testSession.save()\<close> separates.

  \<open>startTest_prepare\<close> is the handler up to the save: the route's validation of \<open>step\<close>
  (an integer from 1 to 3), the user, the eligibility gate, the lookup of an
  IN_PROGRESS session, the question query and \<open>new TestSession\<close>. It ends the request
  with a response (\<open>Inl\<close>) or hands on the new document and the questions (\<open>Inr\<close>). The new
  document takes the schema's defaults: \<open>startTime\<close> is the clock reading \<open>now\<close>,
  \<open>endTime\<close> and \<open>levelAchieved\<close> are null.
\<close>

definition startTest_prepare ::
  "state \<Rightarrow> objectId \<Rightarrow> nat \<Rightarrow> date \<Rightarrow>
     (error + startResponse) + (testSession \<times> (objectId \<times> question) list)" where
  "startTest_prepare st uid stp now =
     (if \<not> (1 \<le> stp \<and> stp \<le> 3) then Inl (Inl ValidationFailed)
      else case findById (users st) uid of
        None \<Rightarrow> Inl (Inl (AppError ''User not found'' 404))
      | Some u \<Rightarrow>
          if \<not> canTakeTestStep u stp then
            Inl (Inl (AppError ''You are not eligible to take this test step'' 403))
          else
            (case findOne (\<lambda>i ts. userId ts = uid \<and> step ts = stp \<and> status ts = IN_PROGRESS)
                    (sessions st) of
               Some (i, existingSession) \<Rightarrow> Inl (Inr (AlreadyInProgress i existingSession))
             | None \<Rightarrow>
                 let qs = take 20 (findMany (\<lambda>i q. q_step q = Some stp \<and> isActive q)
                                     (questionDocs st))
                 in if length qs = 0 then
                      Inl (Inl (AppError ''No questions available for this test step'' 404))
                    else
                      Inr (\<lparr>userId = uid, step = stp, questions = map fst qs, answers = [],
                            startTime = now, endTime = None, timeLimit = 30,
                            status = IN_PROGRESS, score = 0, percentage = 0,
                            levelAchieved = None, canProceedToNext = False\<rparr>, qs)))"

text \<open>
  \<open>startTest_save\<close> is \<open>await testSession.save()\<close> and the 201 response. The save
  validates the document first: a step the validator refuses raises a validation error,
  which is no \<open>AppError\<close>, so the handler answers 500 and nothing is stored. Otherwise
  the \<open>pre('save')\<close> hook runs and the document is appended, with the next id.
\<close>

definition startTest_save ::
  "state \<Rightarrow> testSession \<times> (objectId \<times> question) list \<Rightarrow> (error + startResponse) \<times> state" where
  "startTest_save st p =
     (case p of (testSession, qs) \<Rightarrow>
        if \<not> step_enumValidator (step testSession) then (Inl InternalServerError, st)
        else
          let saved = pre_save testSession
          in (Inr (Started
                    \<lparr>new_sessionId = length (sessions st),
                     new_questions = map (\<lambda>(i, q). (i, map opt_text (options q))) qs,
                     new_timeLimit = timeLimit saved,
                     new_totalQuestions = length qs\<rparr>),
              st\<lparr>sessions := sessions st @ [saved]\<rparr>))"

text \<open>
  One request run on its own: the save follows the preparation with nothing in between.
\<close>

definition startTest ::
  "state \<Rightarrow> objectId \<Rightarrow> nat \<Rightarrow> date \<Rightarrow> (error + startResponse) \<times> state" where
  "startTest st uid stp now =
     (case startTest_prepare st uid stp now of
        Inl response \<Rightarrow> (response, st)
      | Inr p \<Rightarrow> startTest_save st p)"


text \<open>
  \<open>submitAnswer\<close>. The route validates \<open>selectedOption\<close> and \<open>timeSpent\<close> as integers
  that are at least 0. The handler reads no clock.
\<close>

definition submitAnswer ::
  "state \<Rightarrow> objectId \<Rightarrow> objectId \<Rightarrow> objectId \<Rightarrow> int \<Rightarrow> int \<Rightarrow> (error + answerData) \<times> state" where
  "submitAnswer st sid uid qid sel spent =
     (if \<not> (0 \<le> sel \<and> 0 \<le> spent) then (Inl ValidationFailed, st)
      else case findOne (\<lambda>i ts. i = sid \<and> userId ts = uid \<and> status ts = IN_PROGRESS)
                  (sessions st) of
        None \<Rightarrow> (Inl (AppError ''Test session not found or not active'' 404), st)
      | Some (i, testSession) \<Rightarrow>
          (case findById (questionDocs st) qid of
             None \<Rightarrow> (Inl (AppError ''Question not found'' 404), st)
           | Some question \<Rightarrow>
               if qid \<notin> set (questions testSession) then
                 (Inl (AppError ''Question does not belong to this test session'' 400), st)
               else
                 let existingAnswerIndex =
                       findIndex (\<lambda>a. questionId a = qid) (answers testSession);
                     correct =
                       (case element_at (options question) sel of
                          Some opt \<Rightarrow> opt_isCorrect opt
                        | None \<Rightarrow> False);
                     answerData =
                       \<lparr>questionId = qid, selectedOption = sel, isCorrect = correct,
                        timeSpent = spent\<rparr>;
                     answers' =
                       (case existingAnswerIndex of
                          Some k \<Rightarrow> (answers testSession)[k := answerData]
                        | None \<Rightarrow> answers testSession @ [answerData]);
                     saved = pre_save (testSession\<lparr>answers := answers'\<rparr>)
                 in (Inr \<lparr>ack_questionId = qid, ack_isCorrect = correct,
                          ack_totalAnswered = length (answers saved),
                          ack_totalQuestions = length (questions saved)\<rparr>,
                     st\<lparr>sessions := (sessions st)[i := saved]\<rparr>)))"

text \<open>
  \<open>testSession.calculateScore()\<close>, as \<open>completeTest\<close> calls it. The session schema
  defines the methods \<open>determineLevelAndProgression\<close>, \<open>isExpired\<close> and \<open>getRemainingTime\<close>
  and no other, and nothing else in the sources adds one: the property is undefined, and
  calling it raises a TypeError.
\<close>

datatype exn = TypeError

definition calculateScore :: "testSession \<Rightarrow> exn + testSession" where
  "calculateScore ts = Inl TypeError"

text \<open>
  The block of \<open>completeTest\<close> that updates the user's level from the saved session
  (the \<open>if\<close> chain on \<open>testSession.percentage\<close> with a \<open>switch\<close> on the step in each
  branch). It stands after the call of \<open>calculateScore\<close>.
\<close>

definition updateUserLevel :: "testSession \<Rightarrow> user \<Rightarrow> user" where
  "updateUserLevel ts u =
     (if percentage ts \<ge> 75 then
        (if step ts = 1 then u\<lparr>currentLevel := Some A2\<rparr>
         else if step ts = 2 then u\<lparr>currentLevel := Some B2\<rparr>
         else if step ts = 3 then u\<lparr>currentLevel := Some C2\<rparr>
         else u)
      else if percentage ts \<ge> 50 then
        (if step ts = 1 then u\<lparr>currentLevel := Some A2\<rparr>
         else if step ts = 2 then u\<lparr>currentLevel := Some B2\<rparr>
         else if step ts = 3 then u\<lparr>currentLevel := Some C1\<rparr>
         else u)
      else if percentage ts \<ge> 25 then
        (if step ts = 1 then u\<lparr>currentLevel := Some A1\<rparr>
         else if step ts = 2 then u\<lparr>currentLevel := Some B1\<rparr>
         else if step ts = 3 then u\<lparr>currentLevel := Some C1\<rparr>
         else u)
      else
        (if step ts = 1 then u\<lparr>canTakeTest := False\<rparr> else u))"

text \<open>
  \<open>completeTest\<close> (\<open>submitTest\<close> is an alias). The handler sets \<open>status\<close> and \<open>endTime\<close> on
  the loaded document and calls \<open>calculateScore\<close>; the exception of that call reaches the
  \<open>catch\<close> clause, which answers 500, and the document is not saved. The statements
  after the call are written out as the handler has them (both clock readings are the
  argument \<open>now\<close>; the response reports \<open>user?.currentLevel\<close> as \<open>levelAchieved\<close> and
  \<open>percentage >= 75\<close> as \<open>canProceedToNext\<close>); they run only if the call returns, which it
  never does: the handler answers 404 or 500 and leaves the store as it is.
\<close>

definition completeTest ::
  "state \<Rightarrow> objectId \<Rightarrow> objectId \<Rightarrow> date \<Rightarrow> (error + completeData) \<times> state" where
  "completeTest st sid uid now =
     (case findOne (\<lambda>i ts. i = sid \<and> userId ts = uid \<and> status ts = IN_PROGRESS)
             (sessions st) of
        None \<Rightarrow> (Inl (AppError ''Test session not found or not active'' 404), st)
      | Some (i, testSession) \<Rightarrow>
          (case calculateScore (testSession\<lparr>status := COMPLETED, endTime := Some now\<rparr>) of
             Inl thrown \<Rightarrow> (Inl InternalServerError, st)
           | Inr scored \<Rightarrow>
               let saved = pre_save scored;
                   st1 = st\<lparr>sessions := (sessions st)[i := saved]\<rparr>;
                   data = \<lparr>res_sessionId = i, res_score = score saved,
                           res_percentage = percentage saved, res_levelAchieved = None,
                           res_canProceedToNext = (percentage saved \<ge> 75),
                           res_timeTaken = int now - int (startTime saved),
                           res_totalQuestions = length (questions saved),
                           res_correctAnswers = score saved\<rparr>
               in (case findById (users st1) uid of
                     None \<Rightarrow> (Inr data, st1)
                   | Some u0 \<Rightarrow>
                       let u = (updateUserLevel saved u0)\<lparr>lastTestAttempt := Some now\<rparr>
                       in (Inr (data\<lparr>res_levelAchieved := currentLevel u\<rparr>),
                           st1\<lparr>users := (users st1)[uid := u]\<rparr>))))"

section \<open>States reached by requests that do not overlap\<close>





section \<open>Example data\<close>

text \<open>
  A two-option question document whose first option is the correct one and which
  carries the step field the query of \<open>startTest\<close> looks for; a state with one user
  who may take tests, one such question for each listed step, and no session; that
  state after user 0 has started a test over \<open>n\<close> questions of one step; and a state
  after user 0 has chosen option 0 for the first \<open>k\<close> questions of session 0.
\<close>

definition demo_question :: "nat \<Rightarrow> question" where
  "demo_question stp =
     \<lparr>q_step = Some stp, isActive = True,
      options = [\<lparr>opt_text = ''yes'', opt_isCorrect = True\<rparr>,
                 \<lparr>opt_text = ''no'', opt_isCorrect = False\<rparr>]\<rparr>"

definition demo_state :: "AssessmentLevel option \<Rightarrow> nat list \<Rightarrow> state" where
  "demo_state lvl steps =
     \<lparr>users = [\<lparr>currentLevel = lvl, canTakeTest = True, lastTestAttempt = None\<rparr>],
      questionDocs = map demo_question steps,
      sessions = []\<rparr>"

definition started :: "AssessmentLevel option \<Rightarrow> nat \<Rightarrow> nat \<Rightarrow> state" where
  "started lvl stp n = snd (startTest (demo_state lvl (replicate n stp)) 0 stp 0)"

definition answer_first :: "nat \<Rightarrow> state \<Rightarrow> state" where
  "answer_first k st = fold (\<lambda>q s. snd (submitAnswer s 0 0 q 0 1)) [0..<k] st"

text \<open>
  A store that holds, for a user certified B2, an IN_PROGRESS session of step 3 over 20
  questions with 11 answers, all correct, as the \<open>pre('save')\<close> hook leaves it; and a
  store that holds a COMPLETED session of step 1 with its outcome.
\<close>

definition demo_stage3 :: state where
  "demo_stage3 =
     \<lparr>users = [\<lparr>currentLevel = Some B2, canTakeTest = True, lastTestAttempt = None\<rparr>],
      questionDocs = replicate 20 (demo_question 3),
      sessions =
        [pre_save
           \<lparr>userId = 0, step = 3, questions = [0..<20],
            answers = map (\<lambda>q. \<lparr>questionId = q, selectedOption = 0, isCorrect = True,
                                 timeSpent = 1\<rparr>) [0..<11],
            startTime = 0, endTime = None, timeLimit = 30, status = IN_PROGRESS,
            score = 0, percentage = 0, levelAchieved = None, canProceedToNext = False\<rparr>]\<rparr>"

definition demo_completed :: state where
  "demo_completed =
     \<lparr>users = [\<lparr>currentLevel = Some A2, canTakeTest = True, lastTestAttempt = Some 5\<rparr>],
      questionDocs = replicate 4 (demo_question 1),
      sessions =
        [\<lparr>userId = 0, step = 1, questions = [0, 1, 2, 3],
          answers = map (\<lambda>q. \<lparr>questionId = q, selectedOption = 0, isCorrect = True,
                               timeSpent = 1\<rparr>) [0, 1, 2],
          startTime = 0, endTime = Some 5, timeLimit = 30, status = COMPLETED,
          score = 3, percentage = 75, levelAchieved = Some A2, canProceedToNext = True\<rparr>]\<rparr>"

section \<open>Lemmas about the collections\<close>

lemma findById_Some: "findById docs i = Some d \<longleftrightarrow> i < length docs \<and> d = docs ! i"
  by (auto simp: findById_def)

lemma find_enumerate_Some:
  "find (\<lambda>(i, d). P i d) (enumerate n docs) = Some (i, d) \<Longrightarrow>
     n \<le> i \<and> i < n + length docs \<and> d = docs ! (i - n) \<and> P i d \<and>
     (\<forall>j. n \<le> j \<and> j < i \<longrightarrow> \<not> P j (docs ! (j - n)))"
proof (induction docs arbitrary: n)
  case Nil
  then show ?case by simp
next
  case (Cons x xs)
  show ?case
  proof (cases "P n x")
    case True
    with Cons.prems show ?thesis by auto
  next
    case False
    with Cons.prems have "find (\<lambda>(i, d). P i d) (enumerate (Suc n) xs) = Some (i, d)"
      by simp
    from Cons.IH[OF this] False show ?thesis
      by (auto simp: nth_Cons' Suc_diff_le less_Suc_eq_le le_Suc_eq)
  qed
qed

lemma find_enumerate_None:
  "find (\<lambda>(i, d). P i d) (enumerate n docs) = None \<longleftrightarrow>
     (\<forall>j < length docs. \<not> P (n + j) (docs ! j))"
proof (induction docs arbitrary: n)
  case Nil
  then show ?case by simp
next
  case (Cons x xs)
  show ?case
    by (simp add: Cons.IH All_less_Suc2)
qed

lemma findOne_Some:
  "findOne P docs = Some (i, d) \<Longrightarrow>
     i < length docs \<and> d = docs ! i \<and> P i d \<and> (\<forall>j < i. \<not> P j (docs ! j))"
proof -
  assume "findOne P docs = Some (i, d)"
  then have "find (\<lambda>(i, d). P i d) (enumerate 0 docs) = Some (i, d)"
    by (simp add: findOne_def)
  from find_enumerate_Some[OF this] show ?thesis by auto
qed

lemma findOne_None: "findOne P docs = None \<longleftrightarrow> (\<forall>j < length docs. \<not> P j (docs ! j))"
  unfolding findOne_def by (simp add: find_enumerate_None)

lemma findOne_by_id:
  "findOne (\<lambda>i d. i = sid \<and> Q d) docs =
     (if sid < length docs \<and> Q (docs ! sid) then Some (sid, docs ! sid) else None)"
proof (cases "findOne (\<lambda>i d. i = sid \<and> Q d) docs")
  case None
  then show ?thesis by (auto simp: findOne_None)
next
  case (Some p)
  obtain i d where p: "p = (i, d)" by (cases p)
  from findOne_Some[OF Some[unfolded p]] show ?thesis using Some p by auto
qed






lemma set_filter_update_subset:
  "\<not> P y \<Longrightarrow> set (filter P (xs[i := y])) \<subseteq> set (filter P xs)"
  using set_update_subset_insert[of xs i y] by auto

lemma distinct_filter_update_drop:
  "distinct (map f (filter P xs)) \<Longrightarrow> \<not> P y \<Longrightarrow> distinct (map f (filter P (xs[i := y])))"
proof (induction xs arbitrary: i)
  case Nil
  then show ?case by simp
next
  case (Cons x xs)
  show ?case
  proof (cases i)
    case 0
    with Cons.prems show ?thesis by (auto split: if_splits)
  next
    case (Suc k)
    have sub: "set (filter P (xs[k := y])) \<subseteq> set (filter P xs)"
      using Cons.prems(2) by (rule set_filter_update_subset)
    from Cons.prems have d: "distinct (map f (filter P xs))" by (auto split: if_splits)
    from Cons.IH[OF d Cons.prems(2)] have "distinct (map f (filter P (xs[k := y])))" .
    with Cons.prems sub Suc show ?thesis by (auto split: if_splits)
  qed
qed


section \<open>Lemmas about the session model\<close>

lemma determineLevelAndProgression_frame:
  "userId (determineLevelAndProgression ts) = userId ts"
  "step (determineLevelAndProgression ts) = step ts"
  "questions (determineLevelAndProgression ts) = questions ts"
  "answers (determineLevelAndProgression ts) = answers ts"
  "startTime (determineLevelAndProgression ts) = startTime ts"
  "endTime (determineLevelAndProgression ts) = endTime ts"
  "timeLimit (determineLevelAndProgression ts) = timeLimit ts"
  "status (determineLevelAndProgression ts) = status ts"
  "score (determineLevelAndProgression ts) = score ts"
  "percentage (determineLevelAndProgression ts) = percentage ts"
  by (simp_all add: determineLevelAndProgression_def Let_def)

lemma pre_save_frame:
  "userId (pre_save ts) = userId ts"
  "step (pre_save ts) = step ts"
  "questions (pre_save ts) = questions ts"
  "answers (pre_save ts) = answers ts"
  "startTime (pre_save ts) = startTime ts"
  "endTime (pre_save ts) = endTime ts"
  "timeLimit (pre_save ts) = timeLimit ts"
  "status (pre_save ts) = status ts"
  by (simp_all add: pre_save_def Let_def determineLevelAndProgression_frame)

lemma step_enumValidator_steps:
  "step_enumValidator 1" "\<not> step_enumValidator 2" "\<not> step_enumValidator 3"
  by code_simp+

lemma step_enumValidator_valid:
  assumes "1 \<le> v" "v \<le> 3"
  shows "step_enumValidator v = (v = 1)"
proof -
  from assms have "v = 1 \<or> v = 2 \<or> v = 3" by arith
  then show ?thesis using step_enumValidator_steps by auto
qed

section \<open>Lemmas about the handlers\<close>


lemma completeTest_not_active:
  assumes "\<not> (sid < length (sessions st) \<and> userId (sessions st ! sid) = uid \<and>
              status (sessions st ! sid) = IN_PROGRESS)"
  shows "completeTest st sid uid now =
           (Inl (AppError ''Test session not found or not active'' 404), st)"
  using assms by (auto simp: completeTest_def findOne_by_id)

lemma completeTest_in_progress:
  assumes "findById (sessions st) sid = Some ts" "userId ts = uid" "status ts = IN_PROGRESS"
  shows "completeTest st sid uid now = (Inl InternalServerError, st)"
proof -
  from assms(1) have sid: "sid < length (sessions st)" "sessions st ! sid = ts"
    by (auto simp: findById_Some)
  show ?thesis
    using sid assms(2,3)
    by (simp add: completeTest_def findOne_by_id calculateScore_def)
qed

lemma completeTest_eq:
  "completeTest st sid uid now =
     (if sid < length (sessions st) \<and> userId (sessions st ! sid) = uid \<and>
         status (sessions st ! sid) = IN_PROGRESS
      then (Inl InternalServerError, st)
      else (Inl (AppError ''Test session not found or not active'' 404), st))"
  by (simp add: completeTest_def findOne_by_id calculateScore_def)


lemma startTest_cases:
  "startTest st uid stp now = (r, st') \<Longrightarrow>
     st' = st \<or>
     (\<exists>ts. st' = st\<lparr>sessions := sessions st @ [ts]\<rparr> \<and> userId ts = uid \<and> step ts = stp \<and>
           stp = 1 \<and> status ts = IN_PROGRESS \<and>
           findOne (\<lambda>i ts. userId ts = uid \<and> step ts = stp \<and> status ts = IN_PROGRESS)
             (sessions st) = None)"
  by (auto simp: startTest_def startTest_prepare_def startTest_save_def Let_def pre_save_frame
                 step_enumValidator_valid
           split: option.splits if_splits prod.splits)


section \<open>What requests that do not overlap keep\<close>




section \<open>Eligibility gate\<close>

text \<open>
  C8, as the code has it: the gate for steps 2 and 3 is the level test together with the
  \<open>canTakeTest\<close> flag, which \<open>canTakeTestStep\<close> checks before it looks at the step.
\<close>

theorem canTakeTestStep_steps_2_3:
  "canTakeTestStep u 2 =
     (canTakeTest u \<and> currentLevel u \<in> {Some A2, Some B1, Some B2}) \<and>
   canTakeTestStep u 3 =
     (canTakeTest u \<and> currentLevel u \<in> {Some B2, Some C1, Some C2})"
  by (auto simp: canTakeTestStep_def)

text \<open>
  C8 as stated fails: a user certified A2 whose \<open>canTakeTest\<close> flag is off is refused
  step 2.
\<close>

theorem canTakeTestStep_locked_A2_refused:
  "\<not> canTakeTestStep \<lparr>currentLevel = Some A2, canTakeTest = False, lastTestAttempt = None\<rparr> 2"
  by (simp add: canTakeTestStep_def)

section \<open>Band boundaries\<close>


section \<open>Starting a test\<close>




text \<open>
  C7, as the code has it: for an eligible user with no IN_PROGRESS session for the
  step, \<open>startTest\<close> answers 404 (no questions available) exactly when no active
  question document carries the step; with at least one, at step 1, it creates a
  session over the first 20 of them, or over all of them when there are fewer than 20
  (at steps 2 and 3 the save of the new session is refused and the answer is 500).
\<close>

theorem startTest_question_pool:
  assumes "findById (users st) uid = Some u" "canTakeTestStep u stp"
    and "findOne (\<lambda>i ts. userId ts = uid \<and> step ts = stp \<and> status ts = IN_PROGRESS)
           (sessions st) = None"
  shows "let avail = findMany (\<lambda>i q. q_step q = Some stp \<and> isActive q) (questionDocs st) in
         if avail = [] then
           startTest st uid stp now =
             (Inl (AppError ''No questions available for this test step'' 404), st)
         else if stp = 1 then
           \<exists>d. startTest st uid stp now =
                  (Inr (Started d),
                   st\<lparr>sessions := sessions st @
                        [\<lparr>userId = uid, step = stp, questions = map fst (take 20 avail),
                          answers = [], startTime = now, endTime = None, timeLimit = 30,
                          status = IN_PROGRESS, score = 0, percentage = 0,
                          levelAchieved = None, canProceedToNext = False\<rparr>]\<rparr>) \<and>
                new_sessionId d = length (sessions st) \<and>
                new_totalQuestions d = min 20 (length avail)
         else startTest st uid stp now = (Inl InternalServerError, st)"
proof -
  from assms(2) have valid: "1 \<le> stp \<and> stp \<le> 3"
    by (auto simp: canTakeTestStep_def split: if_splits)
  then have v: "step_enumValidator stp = (stp = 1)" by (simp add: step_enumValidator_valid)
  show ?thesis
    using assms valid v
    by (auto simp: startTest_def startTest_prepare_def startTest_save_def Let_def pre_save_def)
qed

text \<open>
  C7, a witness: the theorem above at a state with three active questions for step 1.
\<close>

theorem startTest_question_pool_witness:
  "findById (users (demo_state None [1, 1, 1])) 0 =
     Some \<lparr>currentLevel = None, canTakeTest = True, lastTestAttempt = None\<rparr> \<and>
   canTakeTestStep \<lparr>currentLevel = None, canTakeTest = True, lastTestAttempt = None\<rparr> 1 \<and>
   findOne (\<lambda>i ts. userId ts = 0 \<and> step ts = 1 \<and> status ts = IN_PROGRESS)
     (sessions (demo_state None [1, 1, 1])) = None \<and>
   length (findMany (\<lambda>i q. q_step q = Some 1 \<and> isActive q)
             (questionDocs (demo_state None [1, 1, 1]))) = 3 \<and>
   (\<exists>d. startTest (demo_state None [1, 1, 1]) 0 1 7 =
          (Inr (Started d),
           (demo_state None [1, 1, 1])\<lparr>sessions :=
              [\<lparr>userId = 0, step = 1, questions = [0, 1, 2], answers = [], startTime = 7,
                endTime = None, timeLimit = 30, status = IN_PROGRESS, score = 0,
                percentage = 0, levelAchieved = None, canProceedToNext = False\<rparr>]\<rparr>) \<and>
        new_sessionId d = 0 \<and> new_totalQuestions d = 3)"
proof -
  let ?st = "demo_state None [1, 1, 1]"
  have h: "findById (users ?st) 0 =
     Some \<lparr>currentLevel = None, canTakeTest = True, lastTestAttempt = None\<rparr>"
    "canTakeTestStep \<lparr>currentLevel = None, canTakeTest = True, lastTestAttempt = None\<rparr> 1"
    "findOne (\<lambda>i ts. userId ts = 0 \<and> step ts = 1 \<and> status ts = IN_PROGRESS)
       (sessions ?st) = None"
    by code_simp+
  have e: "findMany (\<lambda>i q. q_step q = Some 1 \<and> isActive q) (questionDocs ?st) =
             [(0, demo_question 1), (1, demo_question 1), (2, demo_question 1)]"
    "sessions ?st = []"
    by code_simp+
  from startTest_question_pool[OF h, of 7] h show ?thesis
    unfolding e Let_def by (simp add: numeral_3_eq_3)
qed

text \<open>
  C7 as stated fails: with three active questions for the step, fewer than 20,
  \<open>startTest\<close> starts a session over the three.
\<close>

theorem startTest_three_questions_started:
  "length (findMany (\<lambda>i q. q_step q = Some 1 \<and> isActive q)
             (questionDocs (demo_state None [1, 1, 1]))) = 3 \<and>
   fst (startTest (demo_state None [1, 1, 1]) 0 1 7) =
     Inr (Started \<lparr>new_sessionId = 0,
            new_questions = [(0, [''yes'', ''no'']), (1, [''yes'', ''no'']), (2, [''yes'', ''no''])],
            new_timeLimit = 30, new_totalQuestions = 3\<rparr>) \<and>
   questions (sessions (snd (startTest (demo_state None [1, 1, 1]) 0 1 7)) ! 0) = [0, 1, 2] \<and>
   status (sessions (snd (startTest (demo_state None [1, 1, 1]) 0 1 7)) ! 0) = IN_PROGRESS"
  by code_simp

section \<open>Submitting an answer\<close>









section \<open>Completing a test\<close>

text \<open>
  C3, as the code has it: for a session whose status is COMPLETED, \<open>completeTest\<close>
  answers 404 (test session not found or not active) and changes nothing: it does not
  return the stored outcome, recomputes nothing and does not touch the user.
\<close>

theorem completeTest_refuses_completed:
  assumes "findById (sessions st) sid = Some ts" "status ts = COMPLETED"
  shows "completeTest st sid uid now =
           (Inl (AppError ''Test session not found or not active'' 404), st)"
proof -
  from assms have "\<not> (sid < length (sessions st) \<and> userId (sessions st ! sid) = uid \<and>
              status (sessions st ! sid) = IN_PROGRESS)"
    by (auto simp: findById_Some)
  then show ?thesis by (rule completeTest_not_active)
qed

text \<open>
  C3, a witness: the theorem above for a store that holds a COMPLETED session with its
  outcome: the call is refused and leaves the store as it is.
\<close>

theorem completeTest_refuses_completed_witness:
  "findById (sessions demo_completed) 0 = Some (sessions demo_completed ! 0) \<and>
   status (sessions demo_completed ! 0) = COMPLETED \<and>
   completeTest demo_completed 0 0 9 =
     (Inl (AppError ''Test session not found or not active'' 404), demo_completed)"
proof -
  have h: "findById (sessions demo_completed) 0 = Some (sessions demo_completed ! 0)"
    "status (sessions demo_completed ! 0) = COMPLETED"
    by code_simp+
  from completeTest_refuses_completed[OF h, of 0 9] h show ?thesis
    by (simp only: simp_thms)
qed

text \<open>
  C3 as stated fails: the store holds a COMPLETED session of user 0 with the outcome
  score 3, percentage 75, level A2, canProceedToNext true; \<open>completeTest\<close> for it returns
  the 404 error and not that outcome.
\<close>

theorem completeTest_completed_not_returned:
  "userId (sessions demo_completed ! 0) = 0 \<and>
   status (sessions demo_completed ! 0) = COMPLETED \<and>
   score (sessions demo_completed ! 0) = 3 \<and>
   percentage (sessions demo_completed ! 0) = 75 \<and>
   levelAchieved (sessions demo_completed ! 0) = Some A2 \<and>
   canProceedToNext (sessions demo_completed ! 0) = True \<and>
   fst (completeTest demo_completed 0 0 9) =
     Inl (AppError ''Test session not found or not active'' 404)"
  by code_simp

text \<open>
  C6 (a finalized attempt has the count of correct answers as score, score /
  totalQuestions * 100 as percentage, and the outcome for that percentage), at the
  claim's own example: step 1, 20 questions, 15 answered correctly and 5 never answered.
  The session is IN_PROGRESS with score 15 and percentage 75 stored by the
  \<open>pre('save')\<close> hook of the last answer; \<open>completeTest\<close> answers 500 and leaves the store
  as it is: the session is not finalized and no outcome is returned.
\<close>

theorem completeTest_fifteen_of_twenty_fails:
  "step (sessions (answer_first 15 (started None 1 20)) ! 0) = 1 \<and>
   length (questions (sessions (answer_first 15 (started None 1 20)) ! 0)) = 20 \<and>
   length (filter isCorrect (answers (sessions (answer_first 15 (started None 1 20)) ! 0))) = 15 \<and>
   score (sessions (answer_first 15 (started None 1 20)) ! 0) = 15 \<and>
   percentage (sessions (answer_first 15 (started None 1 20)) ! 0) = 75 \<and>
   status (sessions (answer_first 15 (started None 1 20)) ! 0) = IN_PROGRESS \<and>
   completeTest (answer_first 15 (started None 1 20)) 0 0 9 =
     (Inl InternalServerError, answer_first 15 (started None 1 20))"
proof -
  let ?st = "answer_first 15 (started None 1 20)"
  have h: "findById (sessions ?st) 0 = Some (sessions ?st ! 0)"
    "userId (sessions ?st ! 0) = 0" "status (sessions ?st ! 0) = IN_PROGRESS"
    by code_simp+
  have e: "step (sessions ?st ! 0) = 1" "length (questions (sessions ?st ! 0)) = 20"
    "length (filter isCorrect (answers (sessions ?st ! 0))) = 15"
    "score (sessions ?st ! 0) = 15" "percentage (sessions ?st ! 0) = 75"
    by code_simp+
  from completeTest_in_progress[OF h, of 9] h e show ?thesis by (intro conjI)
qed

text \<open>
  C1 (the level at step 3 is C1 for a percentage in [25,50) and C2 from 50 on, in the
  outcome and in the user's standing, and canProceedToNext is false at step 3), at the
  claim's own example: step 3, 20 questions, 11 correct, 55 percent, user certified B2.
  For the stored IN_PROGRESS session \<open>completeTest\<close> answers 500 and leaves the store as
  it is: no outcome is returned and the user stays at B2. And \<open>startTest\<close> for step 3
  answers 500 and stores no session.
\<close>

theorem completeTest_stage3_fails:
  "step (sessions demo_stage3 ! 0) = 3 \<and>
   length (questions (sessions demo_stage3 ! 0)) = 20 \<and>
   score (sessions demo_stage3 ! 0) = 11 \<and>
   percentage (sessions demo_stage3 ! 0) = 55 \<and>
   status (sessions demo_stage3 ! 0) = IN_PROGRESS \<and>
   currentLevel (users demo_stage3 ! 0) = Some B2 \<and>
   completeTest demo_stage3 0 0 9 = (Inl InternalServerError, demo_stage3) \<and>
   startTest (demo_state (Some B2) (replicate 20 3)) 0 3 0 =
     (Inl InternalServerError, demo_state (Some B2) (replicate 20 3))"
proof -
  have h: "findById (sessions demo_stage3) 0 = Some (sessions demo_stage3 ! 0)"
    "userId (sessions demo_stage3 ! 0) = 0" "status (sessions demo_stage3 ! 0) = IN_PROGRESS"
    by code_simp+
  have e: "step (sessions demo_stage3 ! 0) = 3" "length (questions (sessions demo_stage3 ! 0)) = 20"
    "score (sessions demo_stage3 ! 0) = 11" "percentage (sessions demo_stage3 ! 0) = 55"
    "currentLevel (users demo_stage3 ! 0) = Some B2"
    by code_simp+
  have s: "fst (startTest (demo_state (Some B2) (replicate 20 3)) 0 3 0) = Inl InternalServerError"
    "sessions (snd (startTest (demo_state (Some B2) (replicate 20 3)) 0 3 0)) = []"
    by code_simp+
  have "snd (startTest (demo_state (Some B2) (replicate 20 3)) 0 3 0) =
          demo_state (Some B2) (replicate 20 3)"
    using startTest_cases[of "demo_state (Some B2) (replicate 20 3)" 0 3 0
        "fst (startTest (demo_state (Some B2) (replicate 20 3)) 0 3 0)"
        "snd (startTest (demo_state (Some B2) (replicate 20 3)) 0 3 0)"]
    by auto
  with s have t: "startTest (demo_state (Some B2) (replicate 20 3)) 0 3 0 =
     (Inl InternalServerError, demo_state (Some B2) (replicate 20 3))"
    by (simp add: prod_eq_iff)
  from completeTest_in_progress[OF h, of 9] h e t show ?thesis by (intro conjI)
qed

end
